theory Spec2Isabelle
  imports Main "HOL-Library.Word"
begin

section \<open>The todo-list client (\<^verbatim>\<open>src/App.tsx\<close>)\<close>

text \<open>
  The component \<^verbatim>\<open>App\<close> keeps three pieces of React state, owns two forms of
  react-hook-form validated by one zod schema, and talks to the remote store through three
  mutations. Each handler of the component is embedded as a function from the state before
  the event to the state after it. The state record holds the React state, the two forms,
  and the part of the environment the handlers touch: the system clock read by
  \<^verbatim>\<open>new Date()\<close>, the HTTP requests given to \<^verbatim>\<open>fetch\<close>, the notices
  shown by \<^verbatim>\<open>alert\<close> and the speech-recognition capability of the window.
\<close>

subsection \<open>Strings and timestamps\<close>

text \<open>
  A JavaScript string is a sequence of UTF-16 code units and \<^verbatim>\<open>.length\<close> counts
  code units, so a title is a list of 16-bit words and its length is the length of the list.
  \<open>utf16\<close> writes an ASCII literal as such a string. The messages of the schema and of
  \<^verbatim>\<open>alert\<close> are ASCII literals of the source and stay HOL strings.

  \<^verbatim>\<open>createdAt\<close> and \<^verbatim>\<open>updatedAt\<close> hold what
  \<^verbatim>\<open>new Date().toISOString()\<close> returns: the rendering of a time value, the number
  of milliseconds since the epoch. The model keeps the time value itself.
\<close>

type_synonym code_unit = "16 word"
type_synonym jsstring = "code_unit list"
type_synonym timestamp = int

definition utf16 :: "string \<Rightarrow> jsstring" where
  "utf16 s = map of_char s"

subsection \<open>The \<^verbatim>\<open>Todo\<close> interface\<close>

text \<open>
  \<^verbatim>\<open>interface Todo { id; title; createdAt; updatedAt; completed; progress }\<close>.
  The source uses three views of it: \<^verbatim>\<open>Omit<Todo, "id" | "createdAt" | "updatedAt">\<close>
  (the argument of the create mutation), that record with both timestamps added (the body of
  the POST request) and the full record. They are one chain of record extensions, so that
  the fields a spread copies are the fields of the parent record. The field
  \<^verbatim>\<open>id\<close> is \<open>todo_id\<close> here. The numbers \<^verbatim>\<open>id\<close> and
  \<^verbatim>\<open>progress\<close> are only ever copied, or set to the literal 0.
\<close>

record NewTodo =
  title :: jsstring
  completed :: bool
  progress :: int

record TodoBody = NewTodo +
  createdAt :: timestamp
  updatedAt :: timestamp

record Todo = TodoBody +
  todo_id :: int

subsection \<open>The schema\<close>

text \<open>
  \<^verbatim>\<open>z.string().min(3, m1).max(20, m2)\<close> is a string schema carrying a list of
  checks. Parsing runs every check in order: \<^verbatim>\<open>min\<close> raises an issue when
  \<^verbatim>\<open>data.length < value\<close>, \<^verbatim>\<open>max\<close> when
  \<^verbatim>\<open>data.length > value\<close>. The parse succeeds with the data when no issue was
  raised, and fails with the issues otherwise.
\<close>

datatype check = Min nat string | Max nat string

fun check_issue :: "jsstring \<Rightarrow> check \<Rightarrow> string option" where
  "check_issue s (Min n m) = (if length s < n then Some m else None)"
| "check_issue s (Max n m) = (if length s > n then Some m else None)"

definition safeParse :: "check list \<Rightarrow> jsstring \<Rightarrow> string list + jsstring" where
  "safeParse cs s =
     (case List.map_filter (check_issue s) cs of
        [] \<Rightarrow> Inr s
      | m # ms \<Rightarrow> Inl (m # ms))"

definition todoSchema :: "check list" where
  "todoSchema =
     [Min 3 ''Title must be at least 3 characters'',
      Max 20 ''Title must be at most 20 characters'']"

subsection \<open>The forms\<close>

text \<open>
  Both forms are created by \<^verbatim>\<open>useForm({ resolver: zodResolver(todoSchema),
  defaultValues: { title: "" } })\<close>. A form holds the value of its one field and the
  message shown by \<^verbatim>\<open><FormMessage />\<close>, if any. \<^verbatim>\<open>setValue\<close>
  writes the field and does not validate; \<^verbatim>\<open>reset()\<close> restores the default
  value and clears the message. The resolver reports, for a failed parse, the message of
  the first issue of the field.
\<close>

record form_state =
  field_value :: jsstring
  field_error :: "string option"

definition defaultValues :: form_state where
  "defaultValues = \<lparr>field_value = [], field_error = None\<rparr>"

definition setValue :: "jsstring \<Rightarrow> form_state \<Rightarrow> form_state" where
  "setValue v f = f\<lparr>field_value := v\<rparr>"

definition reset :: "form_state \<Rightarrow> form_state" where
  "reset f = defaultValues"

definition zodResolver :: "check list \<Rightarrow> jsstring \<Rightarrow> string option + jsstring" where
  "zodResolver cs v =
     (case safeParse cs v of
        Inr data \<Rightarrow> Inr data
      | Inl issues \<Rightarrow> Inl (case issues of [] \<Rightarrow> None | m # ms \<Rightarrow> Some m))"

subsection \<open>Requests and the state\<close>

text \<open>
  The four requests the component gives to \<^verbatim>\<open>fetch\<close>, by method and path; a
  POST and a PUT carry the record that \<^verbatim>\<open>JSON.stringify\<close> serialises.
\<close>

datatype request =
    GET_todos
  | POST_todos TodoBody
  | PUT_todos int Todo
  | DELETE_todos int

text \<open>
  The first three fields are the \<^verbatim>\<open>useState\<close> cells of the component, the next
  two its forms. The rest is the environment: \<open>clock\<close> gives the time value of the
  \<open>n\<close>-th \<^verbatim>\<open>new Date()\<close> evaluated so far and \<open>reads\<close> counts them,
  \<open>requests\<close> and \<open>alerts\<close> log the calls of \<^verbatim>\<open>fetch\<close> and
  \<^verbatim>\<open>alert\<close> (oldest first), \<open>speech_supported\<close> is
  \<^verbatim>\<open>"webkitSpeechRecognition" in window\<close>, and \<open>sessions\<close> counts the calls of
  \<^verbatim>\<open>recognition.start()\<close>.
\<close>

record state =
  editingTodo :: "Todo option"
  isEditDialogOpen :: bool
  isListening :: bool
  form :: form_state
  editForm :: form_state
  clock :: "nat \<Rightarrow> timestamp"
  reads :: nat
  requests :: "request list"
  alerts :: "string list"
  speech_supported :: bool
  sessions :: nat

definition App_init :: "(nat \<Rightarrow> timestamp) \<Rightarrow> bool \<Rightarrow> state" where
  "App_init c sp =
     \<lparr>editingTodo = None, isEditDialogOpen = False, isListening = False,
      form = defaultValues, editForm = defaultValues,
      clock = c, reads = 0, requests = [], alerts = [],
      speech_supported = sp, sessions = 0\<rparr>"

definition new_Date :: "state \<Rightarrow> timestamp \<times> state" where
  "new_Date st = (clock st (reads st), st\<lparr>reads := Suc (reads st)\<rparr>)"

definition fetch :: "request \<Rightarrow> state \<Rightarrow> state" where
  "fetch r st = st\<lparr>requests := requests st @ [r]\<rparr>"

subsection \<open>The mutations\<close>

text \<open>
  \<^verbatim>\<open>mutate(v)\<close> runs the mutation function once on \<open>v\<close>. The create mutation
  builds \<^verbatim>\<open>{...newTodo, createdAt: new Date().toISOString(), updatedAt:
  new Date().toISOString()}\<close>, reading the clock twice, in this order. The update mutation
  builds \<^verbatim>\<open>{...updatedTodo, updatedAt: new Date().toISOString()}\<close> and puts it
  to the path of \<^verbatim>\<open>updatedTodo.id\<close>.
\<close>

definition createMutation_mutate :: "NewTodo \<Rightarrow> state \<Rightarrow> state" where
  "createMutation_mutate newTodo st =
     (let (t1, st1) = new_Date st;
          (t2, st2) = new_Date st1
      in fetch (POST_todos
           \<lparr>title = title newTodo, completed = completed newTodo,
            progress = progress newTodo, createdAt = t1, updatedAt = t2\<rparr>) st2)"

definition updateMutation_mutate :: "Todo \<Rightarrow> state \<Rightarrow> state" where
  "updateMutation_mutate updatedTodo st =
     (let (t, st1) = new_Date st
      in fetch (PUT_todos (todo_id updatedTodo) (updatedTodo\<lparr>updatedAt := t\<rparr>)) st1)"

definition deleteMutation_mutate :: "int \<Rightarrow> state \<Rightarrow> state" where
  "deleteMutation_mutate i st = fetch (DELETE_todos i) st"

subsection \<open>The handlers\<close>

definition onSubmit :: "jsstring \<Rightarrow> state \<Rightarrow> state" where
  "onSubmit data st =
     (let st1 = createMutation_mutate \<lparr>title = data, completed = False, progress = 0\<rparr> st
      in st1\<lparr>form := reset (form st1)\<rparr>)"

definition onEditSubmit :: "jsstring \<Rightarrow> state \<Rightarrow> state" where
  "onEditSubmit data st =
     (case editingTodo st of
        None \<Rightarrow> st
      | Some todo \<Rightarrow>
          (let st1 = updateMutation_mutate (todo\<lparr>title := data\<rparr>) st
           in st1\<lparr>editingTodo := None, isEditDialogOpen := False,
                  editForm := reset (editForm st1)\<rparr>))"

definition toggleCompleted :: "Todo \<Rightarrow> state \<Rightarrow> state" where
  "toggleCompleted todo st = updateMutation_mutate (todo\<lparr>completed := \<not> completed todo\<rparr>) st"

text \<open>
  \<^verbatim>\<open>form.handleSubmit(onSubmit)\<close> and \<^verbatim>\<open>editForm.handleSubmit(onEditSubmit)\<close>,
  the submit handlers of the two \<^verbatim>\<open><form>\<close> elements: the resolver runs on the
  current value of the field; on a failure the message is stored and the callback is not
  called, on a success the message is cleared and the callback gets the parsed data.
\<close>

definition form_handleSubmit :: "state \<Rightarrow> state" where
  "form_handleSubmit st =
     (case zodResolver todoSchema (field_value (form st)) of
        Inl e \<Rightarrow> st\<lparr>form := (form st)\<lparr>field_error := e\<rparr>\<rparr>
      | Inr data \<Rightarrow> onSubmit data (st\<lparr>form := (form st)\<lparr>field_error := None\<rparr>\<rparr>))"

definition editForm_handleSubmit :: "state \<Rightarrow> state" where
  "editForm_handleSubmit st =
     (case zodResolver todoSchema (field_value (editForm st)) of
        Inl e \<Rightarrow> st\<lparr>editForm := (editForm st)\<lparr>field_error := e\<rparr>\<rparr>
      | Inr data \<Rightarrow> onEditSubmit data (st\<lparr>editForm := (editForm st)\<lparr>field_error := None\<rparr>\<rparr>))"

text \<open>
  The \<^verbatim>\<open>onClick\<close> of the edit button of the row of \<open>todo\<close>, and
  \<^verbatim>\<open>onOpenChange={setIsEditDialogOpen}\<close>, which the dialog calls with the
  openness it asks for (\<open>False\<close> on a dismissal).
\<close>

definition Edit_onClick :: "Todo \<Rightarrow> state \<Rightarrow> state" where
  "Edit_onClick todo st =
     st\<lparr>editingTodo := Some todo,
        editForm := setValue (title todo) (editForm st),
        isEditDialogOpen := True\<rparr>"

definition setIsEditDialogOpen :: "bool \<Rightarrow> state \<Rightarrow> state" where
  "setIsEditDialogOpen b st = st\<lparr>isEditDialogOpen := b\<rparr>"

subsection \<open>Voice input\<close>

text \<open>
  \<^verbatim>\<open>startVoiceInput\<close> returns after the alert when the window has no
  \<^verbatim>\<open>webkitSpeechRecognition\<close>; otherwise it installs four callbacks on a new
  recognition object and starts it. The callbacks are the cases of \<open>recognition_on\<close>;
  the result event carries \<^verbatim>\<open>event.results[0][0].transcript\<close>.
\<close>

definition startVoiceInput :: "state \<Rightarrow> state" where
  "startVoiceInput st =
     (if \<not> speech_supported st
      then st\<lparr>alerts := alerts st @ [''Speech recognition not supported'']\<rparr>
      else st\<lparr>sessions := Suc (sessions st)\<rparr>)"

datatype recognition_event = Onstart | Onresult jsstring | Onerror | Onend

fun recognition_on :: "recognition_event \<Rightarrow> state \<Rightarrow> state" where
  "recognition_on Onstart st = st\<lparr>isListening := True\<rparr>"
| "recognition_on (Onresult transcript) st =
     st\<lparr>form := setValue transcript (form st), isListening := False\<rparr>"
| "recognition_on Onerror st = st\<lparr>isListening := False\<rparr>"
| "recognition_on Onend st = st\<lparr>isListening := False\<rparr>"

definition recognition_run :: "recognition_event list \<Rightarrow> state \<Rightarrow> state" where
  "recognition_run evs st = foldl (\<lambda>s ev. recognition_on ev s) st evs"

subsection \<open>The rendered list\<close>

text \<open>
  \<^verbatim>\<open>todos.map((todo) => <Card key={todo.id}> ... </Card>)\<close> renders one card for
  each record of the cached list. A card holds a checkbox with
  \<^verbatim>\<open>checked={todo.completed}\<close>, the title, and a \<^verbatim>\<open>Dialog\<close> element of
  its own with \<^verbatim>\<open>open={isEditDialogOpen}\<close>, whose content is the one edit form.
  A row of the model keeps these props; a controlled dialog is shown exactly when its
  \<^verbatim>\<open>open\<close> prop is true.
\<close>

record row =
  row_key :: int
  checkbox_checked :: bool
  card_title :: jsstring
  dialog_open :: bool
  dialog_input :: jsstring

definition render_rows :: "Todo list \<Rightarrow> state \<Rightarrow> row list" where
  "render_rows todos st =
     map (\<lambda>todo. \<lparr>row_key = todo_id todo, checkbox_checked = completed todo,
                   card_title = title todo, dialog_open = isEditDialogOpen st,
                   dialog_input = field_value (editForm st)\<rparr>) todos"

subsection \<open>An active recognition session, in the words of the specification\<close>

text \<open>
  The specification asks that the listening flag be true exactly during an active session:
  one that has started and has not yet delivered a result, raised an error or ended. Over
  the recognition events seen so far (oldest first) that is: there is an event, and the
  latest one is the start of a session.
\<close>

definition session_active :: "recognition_event list \<Rightarrow> bool" where
  "session_active evs = (evs \<noteq> [] \<and> last evs = Onstart)"

subsection \<open>Sample data\<close>

text \<open>
  A clock that reads 2025-11-03T10:49:00.000Z first and advances by a millisecond at each
  reading, and two records of the list. The first was last written by a client whose clock
  is five seconds ahead of this one.
\<close>

definition ticking_clock :: "nat \<Rightarrow> timestamp" where
  "ticking_clock n = 1762166940000 + int n"

definition buy_milk :: Todo where
  "buy_milk =
     \<lparr>title = utf16 ''Buy milk'', completed = False, progress = 0,
      createdAt = 1762166900000, updatedAt = 1762166945000, todo_id = 1\<rparr>"

definition walk_dog :: Todo where
  "walk_dog =
     \<lparr>title = utf16 ''Walk the dog'', completed = True, progress = 40,
      createdAt = 1762166800000, updatedAt = 1762166850000, todo_id = 2\<rparr>"

section \<open>Properties\<close>

subsection \<open>What the resolver and the mutations do\<close>

lemma zodResolver_todoSchema:
  "zodResolver todoSchema t =
     (if length t < 3 then Inl (Some ''Title must be at least 3 characters'')
      else if 20 < length t then Inl (Some ''Title must be at most 20 characters'')
      else Inr t)"
  by (simp add: zodResolver_def safeParse_def todoSchema_def)

lemma requests_createMutation_mutate:
  "requests (createMutation_mutate n st) =
     requests st @
       [POST_todos
          \<lparr>title = title n, completed = completed n, progress = progress n,
           createdAt = clock st (reads st), updatedAt = clock st (Suc (reads st))\<rparr>]"
  by (simp add: createMutation_mutate_def new_Date_def fetch_def)

lemma requests_updateMutation_mutate:
  "requests (updateMutation_mutate u st) =
     requests st @ [PUT_todos (todo_id u) (u\<lparr>updatedAt := clock st (reads st)\<rparr>)]"
  by (simp add: updateMutation_mutate_def new_Date_def fetch_def)

lemma clock_updateMutation_mutate:
  "clock (updateMutation_mutate u st) = clock st"
  "reads (updateMutation_mutate u st) = Suc (reads st)"
  by (simp_all add: updateMutation_mutate_def new_Date_def fetch_def)

lemma length_utf16: "length (utf16 s) = length s"
  by (simp add: utf16_def)

subsection \<open>The title validator\<close>

text \<open>
  C1. The schema accepts a candidate title exactly when its length lies in [3, 20]. A
  shorter title is rejected with the single message "Title must be at least 3 characters",
  a longer one with the single message "Title must be at most 20 characters", and an
  accepted title is returned as it is.
\<close>

theorem todoSchema_accepts_iff:
  "(\<not> isl (safeParse todoSchema s)) = (3 \<le> length s \<and> length s \<le> 20) \<and>
   safeParse todoSchema s =
     (if length s < 3 then Inl [''Title must be at least 3 characters'']
      else if 20 < length s then Inl [''Title must be at most 20 characters'']
      else Inr s)"
  by (simp add: safeParse_def todoSchema_def)

subsection \<open>Submitting the forms\<close>

text \<open>
  C2. A title shorter than 3 or longer than 20 code units, submitted through the create
  form or through the edit form, is rejected: the request log is what it was, the message
  of the violated bound is stored with the field, and the field keeps the title.
\<close>

theorem invalid_title_sends_no_request:
  assumes "length t < 3 \<or> 20 < length t"
  shows "requests (form_handleSubmit (st\<lparr>form := setValue t (form st)\<rparr>)) = requests st \<and>
         form (form_handleSubmit (st\<lparr>form := setValue t (form st)\<rparr>)) =
           \<lparr>field_value = t,
            field_error =
              Some (if length t < 3 then ''Title must be at least 3 characters''
                    else ''Title must be at most 20 characters'')\<rparr> \<and>
         requests (editForm_handleSubmit (st\<lparr>editForm := setValue t (editForm st)\<rparr>)) =
           requests st \<and>
         editForm (editForm_handleSubmit (st\<lparr>editForm := setValue t (editForm st)\<rparr>)) =
           \<lparr>field_value = t,
            field_error =
              Some (if length t < 3 then ''Title must be at least 3 characters''
                    else ''Title must be at most 20 characters'')\<rparr>"
  using assms
  by (auto simp: form_handleSubmit_def editForm_handleSubmit_def zodResolver_todoSchema
      setValue_def)

theorem invalid_title_sends_no_request_witness:
  "length (utf16 ''ab'') < 3 \<and>
   requests (form_handleSubmit
     ((App_init ticking_clock True)
        \<lparr>form := setValue (utf16 ''ab'') (form (App_init ticking_clock True))\<rparr>)) = [] \<and>
   requests (editForm_handleSubmit
     ((App_init ticking_clock True)
        \<lparr>editForm := setValue (utf16 ''ab'') (editForm (App_init ticking_clock True))\<rparr>)) = []"
  using invalid_title_sends_no_request [of "utf16 ''ab''" "App_init ticking_clock True"]
  by (simp add: length_utf16 App_init_def)

text \<open>
  C3. A title of 3 to 20 code units submitted through the create form adds exactly one
  request to the log: a POST of the record with that title, \<open>completed = False\<close>,
  \<open>progress = 0\<close>, and \<open>createdAt\<close> and \<open>updatedAt\<close> each set to the reading of
  the clock taken when the field is built (two successive readings). The form is reset.
\<close>

theorem valid_title_sends_one_create:
  assumes "3 \<le> length t" and "length t \<le> 20"
  shows "requests (form_handleSubmit (st\<lparr>form := setValue t (form st)\<rparr>)) =
           requests st @
             [POST_todos
                \<lparr>title = t, completed = False, progress = 0,
                 createdAt = clock st (reads st), updatedAt = clock st (Suc (reads st))\<rparr>] \<and>
         form (form_handleSubmit (st\<lparr>form := setValue t (form st)\<rparr>)) = defaultValues"
  using assms
  by (simp add: form_handleSubmit_def zodResolver_todoSchema setValue_def onSubmit_def
      Let_def requests_createMutation_mutate reset_def)

theorem valid_title_sends_one_create_witness:
  "3 \<le> length (utf16 ''Buy milk'') \<and> length (utf16 ''Buy milk'') \<le> 20 \<and>
   requests (form_handleSubmit
     ((App_init ticking_clock True)
        \<lparr>form := setValue (utf16 ''Buy milk'') (form (App_init ticking_clock True))\<rparr>)) =
     [POST_todos
        \<lparr>title = utf16 ''Buy milk'', completed = False, progress = 0,
         createdAt = 1762166940000, updatedAt = 1762166940001\<rparr>]"
  using valid_title_sends_one_create [of "utf16 ''Buy milk''" "App_init ticking_clock True"]
  by (simp add: length_utf16 App_init_def ticking_clock_def)

subsection \<open>Toggling and editing\<close>

text \<open>
  C4, as the code has it. Toggling a record adds exactly one request to the log, a PUT to
  the path of the record's id whose body is the record with \<open>completed\<close> negated and
  \<open>updatedAt\<close> replaced by the reading of the client's clock taken when the body is
  built; \<open>id\<close>, \<open>title\<close>, \<open>progress\<close> and \<open>createdAt\<close> are the record's.
  Nothing relates that reading to the record's previous \<open>updatedAt\<close>.
\<close>

theorem toggleCompleted_request:
  "\<exists>b. requests (toggleCompleted todo st) = requests st @ [PUT_todos (todo_id todo) b] \<and>
       b = todo\<lparr>completed := \<not> completed todo, updatedAt := clock st (reads st)\<rparr> \<and>
       todo_id b = todo_id todo \<and> title b = title todo \<and> progress b = progress todo \<and>
       createdAt b = createdAt todo \<and> completed b = (\<not> completed todo) \<and>
       updatedAt b = clock st (reads st)"
  by (simp add: toggleCompleted_def requests_updateMutation_mutate)

text \<open>
  C4 as stated fails: the record \<open>buy_milk\<close> was last written at 10:49:05.000, the
  client's clock reads 10:49:00.000 when the record is toggled, and the body sent carries
  the earlier time.
\<close>

theorem toggleCompleted_not_later_counterexample:
  "requests (toggleCompleted buy_milk (App_init ticking_clock True)) =
     [PUT_todos 1 (buy_milk\<lparr>completed := True, updatedAt := 1762166940000\<rparr>)] \<and>
   \<not> updatedAt buy_milk < updatedAt (buy_milk\<lparr>completed := True, updatedAt := 1762166940000\<rparr>)"
  by (simp add: toggleCompleted_def requests_updateMutation_mutate App_init_def
      ticking_clock_def buy_milk_def)

text \<open>
  C5. With a record selected for editing and a title of 3 to 20 code units in the edit
  form, submitting the form adds exactly one request to the log: a PUT to the path of the
  record's id whose body has the record's \<open>id\<close>, \<open>completed\<close>, \<open>progress\<close> and
  \<open>createdAt\<close>, the new title, and \<open>updatedAt\<close> set to the reading of the clock.
\<close>

theorem edit_submit_request:
  assumes "editingTodo st = Some todo" and "3 \<le> length t" and "length t \<le> 20"
  shows "\<exists>b. requests (editForm_handleSubmit (st\<lparr>editForm := setValue t (editForm st)\<rparr>)) =
               requests st @ [PUT_todos (todo_id todo) b] \<and>
             b = todo\<lparr>title := t, updatedAt := clock st (reads st)\<rparr> \<and>
             todo_id b = todo_id todo \<and> completed b = completed todo \<and>
             progress b = progress todo \<and> createdAt b = createdAt todo \<and>
             title b = t \<and> updatedAt b = clock st (reads st)"
  using assms
  by (simp add: editForm_handleSubmit_def zodResolver_todoSchema setValue_def onEditSubmit_def
      Let_def requests_updateMutation_mutate)

theorem edit_submit_request_witness:
  "editingTodo (Edit_onClick walk_dog (App_init ticking_clock True)) = Some walk_dog \<and>
   3 \<le> length (utf16 ''Walk the cat'') \<and> length (utf16 ''Walk the cat'') \<le> 20 \<and>
   (\<exists>b. requests (editForm_handleSubmit
           ((Edit_onClick walk_dog (App_init ticking_clock True))
              \<lparr>editForm := setValue (utf16 ''Walk the cat'')
                 (editForm (Edit_onClick walk_dog (App_init ticking_clock True)))\<rparr>)) =
          [PUT_todos 2 b] \<and>
        b = \<lparr>title = utf16 ''Walk the cat'', completed = True, progress = 40,
             createdAt = 1762166800000, updatedAt = 1762166940000, todo_id = 2\<rparr>)"
  using edit_submit_request [of "Edit_onClick walk_dog (App_init ticking_clock True)" walk_dog
      "utf16 ''Walk the cat''"]
  by (simp add: length_utf16 Edit_onClick_def App_init_def ticking_clock_def walk_dog_def)

text \<open>
  C6. Every write of an existing record goes through the update mutation, which sends the
  \<open>createdAt\<close> it was given and replaces \<open>updatedAt\<close> by the reading of the clock;
  toggling and editing hand it the record with its \<open>createdAt\<close> untouched.
\<close>

theorem createdAt_kept_updatedAt_refreshed:
  "(\<exists>b. requests (updateMutation_mutate todo st) = requests st @ [PUT_todos (todo_id todo) b] \<and>
        createdAt b = createdAt todo \<and> updatedAt b = clock st (reads st)) \<and>
   (\<exists>b. requests (toggleCompleted todo st) = requests st @ [PUT_todos (todo_id todo) b] \<and>
        createdAt b = createdAt todo \<and> updatedAt b = clock st (reads st)) \<and>
   (\<exists>b. requests (onEditSubmit data (st\<lparr>editingTodo := Some todo\<rparr>)) =
          requests st @ [PUT_todos (todo_id todo) b] \<and>
        createdAt b = createdAt todo \<and> updatedAt b = clock st (reads st))"
  by (simp add: toggleCompleted_def onEditSubmit_def Let_def requests_updateMutation_mutate)

text \<open>
  C9. Toggling a record and then toggling the record that the first request carried sends
  a second body that is the original record in every field but \<open>updatedAt\<close>; in
  particular \<open>completed\<close> is back at its original value.
\<close>

theorem toggleCompleted_twice:
  "\<exists>b1 b2.
      b1 = todo\<lparr>completed := \<not> completed todo, updatedAt := clock st (reads st)\<rparr> \<and>
      requests (toggleCompleted todo st) = requests st @ [PUT_todos (todo_id todo) b1] \<and>
      requests (toggleCompleted b1 (toggleCompleted todo st)) =
        requests st @ [PUT_todos (todo_id todo) b1, PUT_todos (todo_id todo) b2] \<and>
      completed b2 = completed todo \<and>
      b2 = todo\<lparr>updatedAt := clock st (Suc (reads st))\<rparr>"
  by (simp add: toggleCompleted_def requests_updateMutation_mutate clock_updateMutation_mutate)

text \<open>
  C10. With no record selected for editing, \<open>onEditSubmit\<close> returns the state it was
  given: no request, and the dialog flag, the selection and the edit form are what they
  were. Submitting the edit form in such a state sends nothing either and leaves the flag,
  the selection and the value of the field alone, whatever the title.
\<close>

theorem onEditSubmit_without_selection:
  assumes "editingTodo st = None"
  shows "onEditSubmit data st = st \<and>
         requests (editForm_handleSubmit st) = requests st \<and>
         isEditDialogOpen (editForm_handleSubmit st) = isEditDialogOpen st \<and>
         editingTodo (editForm_handleSubmit st) = None \<and>
         field_value (editForm (editForm_handleSubmit st)) = field_value (editForm st)"
  using assms
  by (simp add: onEditSubmit_def editForm_handleSubmit_def zodResolver_todoSchema)

theorem onEditSubmit_without_selection_witness:
  "editingTodo (App_init ticking_clock True) = None \<and>
   onEditSubmit (utf16 ''Buy oat milk'') (App_init ticking_clock True) =
     App_init ticking_clock True \<and>
   requests (editForm_handleSubmit (App_init ticking_clock True)) = []"
  using onEditSubmit_without_selection [of "App_init ticking_clock True" "utf16 ''Buy oat milk''"]
  by (simp add: App_init_def)

subsection \<open>The edit dialog\<close>

text \<open>
  The state keeps one flag and one selection. Selecting edit on a row stores the row's
  record, copies its title into the edit form and sets the flag; a dismissal clears the
  flag; a successful submission clears the flag and the selection and resets the form.
\<close>

lemma Edit_onClick_opens:
  "editingTodo (Edit_onClick todo st) = Some todo"
  "isEditDialogOpen (Edit_onClick todo st)"
  "field_value (editForm (Edit_onClick todo st)) = title todo"
  by (simp_all add: Edit_onClick_def setValue_def)

lemma dismissal_closes:
  "\<not> isEditDialogOpen (setIsEditDialogOpen False st)"
  "editingTodo (setIsEditDialogOpen False st) = editingTodo st"
  by (simp_all add: setIsEditDialogOpen_def)

lemma edit_submit_closes:
  assumes "editingTodo st = Some todo"
    and "3 \<le> length (field_value (editForm st))"
    and "length (field_value (editForm st)) \<le> 20"
  shows "\<not> isEditDialogOpen (editForm_handleSubmit st)"
    and "editingTodo (editForm_handleSubmit st) = None"
    and "editForm (editForm_handleSubmit st) = defaultValues"
  using assms
  by (simp_all add: editForm_handleSubmit_def zodResolver_todoSchema onEditSubmit_def Let_def
      reset_def)

text \<open>
  The list gives every row a dialog of its own, and all of them read the one flag: the
  dialogs shown are all of them or none.
\<close>

lemma open_dialogs_all_or_none:
  "length (filter dialog_open (render_rows todos st)) =
     (if isEditDialogOpen st then length todos else 0)"
  by (simp add: render_rows_def filter_map comp_def)

text \<open>
  C7. The claim that at most one edit dialog is open fails on the code. With the two
  records \<open>buy_milk\<close> and \<open>walk_dog\<close> in the list and the dialog closed, selecting
  edit on the row of \<open>buy_milk\<close> selects that record and copies its title into the edit
  form, and then both rows render their dialog with \<open>open\<close> true: two dialogs are
  shown, one of them on the row of \<open>walk_dog\<close>, which was not selected.
\<close>

theorem edit_click_opens_every_row_dialog:
  "editingTodo (Edit_onClick buy_milk (App_init ticking_clock True)) = Some buy_milk \<and>
   map row_key (filter dialog_open
     (render_rows [buy_milk, walk_dog] (Edit_onClick buy_milk (App_init ticking_clock True)))) =
     [1, 2] \<and>
   map dialog_input
     (render_rows [buy_milk, walk_dog] (Edit_onClick buy_milk (App_init ticking_clock True))) =
     [utf16 ''Buy milk'', utf16 ''Buy milk'']"
  by (simp add: render_rows_def Edit_onClick_def App_init_def setValue_def buy_milk_def
      walk_dog_def)

subsection \<open>Voice input\<close>

lemma isListening_recognition_run:
  "isListening (recognition_run evs st) =
     (if evs = [] then isListening st else last evs = Onstart)"
proof (induction evs rule: rev_induct)
  case Nil
  show ?case by (simp add: recognition_run_def)
next
  case (snoc ev evs)
  show ?case by (cases ev) (simp_all add: recognition_run_def)
qed

text \<open>No other handler of the component writes the listening flag.\<close>

lemma handlers_keep_isListening:
  "isListening (form_handleSubmit st) = isListening st"
  "isListening (editForm_handleSubmit st) = isListening st"
  "isListening (toggleCompleted todo st) = isListening st"
  "isListening (deleteMutation_mutate i st) = isListening st"
  "isListening (Edit_onClick todo st) = isListening st"
  "isListening (setIsEditDialogOpen b st) = isListening st"
  "isListening (startVoiceInput st) = isListening st"
  by (simp_all add: form_handleSubmit_def editForm_handleSubmit_def onSubmit_def
      onEditSubmit_def createMutation_mutate_def updateMutation_mutate_def
      deleteMutation_mutate_def toggleCompleted_def new_Date_def fetch_def Edit_onClick_def
      setIsEditDialogOpen_def startVoiceInput_def Let_def
      split: sum.split option.split)

text \<open>
  C8. When the window has no speech recognition, \<open>startVoiceInput\<close> only adds the notice
  "Speech recognition not supported" to the alerts: no session is started and the listening
  flag is what it was. And after any sequence of recognition events received by the freshly
  mounted component, the flag is true exactly when a session is active: it has started and
  no result, error or end has arrived since.
\<close>

theorem voice_input_listening:
  assumes "\<not> speech_supported st"
  shows "startVoiceInput st = st\<lparr>alerts := alerts st @ [''Speech recognition not supported'']\<rparr> \<and>
         sessions (startVoiceInput st) = sessions st \<and>
         isListening (startVoiceInput st) = isListening st \<and>
         isListening (recognition_run evs (App_init c sp)) = session_active evs"
  using assms
  by (simp add: startVoiceInput_def isListening_recognition_run session_active_def
      App_init_def)

theorem voice_input_listening_witness:
  "\<not> speech_supported (App_init ticking_clock False) \<and>
   alerts (startVoiceInput (App_init ticking_clock False)) =
     [''Speech recognition not supported''] \<and>
   sessions (startVoiceInput (App_init ticking_clock False)) = 0 \<and>
   \<not> isListening (startVoiceInput (App_init ticking_clock False)) \<and>
   isListening (recognition_run [Onstart] (App_init ticking_clock True)) \<and>
   \<not> isListening (recognition_run [Onstart, Onresult (utf16 ''Buy milk''), Onend]
        (App_init ticking_clock True))"
  using voice_input_listening [of "App_init ticking_clock False" "[Onstart]" ticking_clock True]
    voice_input_listening [of "App_init ticking_clock False"
      "[Onstart, Onresult (utf16 ''Buy milk''), Onend]" ticking_clock True]
  by (simp add: App_init_def session_active_def)

end
